theory Spec2Isabelle
  imports Complex_Main "HOL-Library.Monad_Syntax"
begin

section \<open>Values of the history table\<close>

text \<open>
  The tenant application (\<^verbatim>\<open>app2.py\<close>) keeps its history in a pandas DataFrame that is
  read from and written to \<^verbatim>\<open>tenant_history.csv\<close>. A cell of that table is a missing
  value (an empty CSV field is read back as NaN), a text, or a number.
\<close>

datatype cell = NaN | Text string | Num real

text \<open>\<^verbatim>\<open>pd.isna(x)\<close> on a scalar.\<close>

fun isna :: "cell \<Rightarrow> bool" where
  "isna NaN = True"
| "isna (Text s) = False"
| "isna (Num r) = False"

section \<open>Timestamps\<close>

text \<open>
  A pandas \<^verbatim>\<open>Timestamp\<close> is an instant, held by the library as a signed 64-bit count
  of time units since 1970-01-01T00:00, with one value reserved for \<^verbatim>\<open>NaT\<close>
  (not-a-time). The model holds the instant as a number of nanoseconds since then. The
  unit of the library, and with it the range, is microseconds for a parsed date text and
  for a \<^verbatim>\<open>timedelta\<close> of the standard library (pandas 3; about 292 thousand years on
  either side of 1970). The result of an operation that raises is \<open>None\<close> here.
\<close>

datatype stamp = NaT | Timestamp int

datatype delta = NaTd | Timedelta int

definition day_ns :: int where
  "day_ns = 86400000000000"

text \<open>The largest 64-bit count of microseconds, in nanoseconds.\<close>

definition us_max :: int where
  "us_max = 9223372036854775807 * 1000"

text \<open>
  The calendar of the standard library runs from 0001-01-01 to 9999-12-31; as day
  numbers (days since 1970-01-01):
\<close>

definition date_min :: int where
  "date_min = - 719162"

definition date_max :: int where
  "date_max = 2932896"

text \<open>
  \<^verbatim>\<open>pd.to_datetime(datetime.now().date())\<close>: midnight of the clock's date. The clock is
  an input of the model: \<open>today\<close> is the number of days from 1970-01-01 to the current
  date, a date the clock of a running system can show (inside the Timestamp range).
\<close>

definition midnight :: "int \<Rightarrow> stamp" where
  "midnight d = Timestamp (d * day_ns)"

text \<open>
  Comparison, difference and the \<^verbatim>\<open>days\<close> attribute. Every comparison with NaT is
  False, a difference with NaT is NaT, and the \<^verbatim>\<open>days\<close> of NaT is the float NaN
  (\<open>None\<close> here), for which \<^verbatim>\<open><=\<close> is False again. \<^verbatim>\<open>Timedelta.days\<close> rounds towards
  minus infinity, as \<open>div\<close> does on \<open>int\<close>.
\<close>

fun stamp_less :: "stamp \<Rightarrow> stamp \<Rightarrow> bool" where
  "stamp_less (Timestamp a) (Timestamp b) = (a < b)"
| "stamp_less _ _ = False"

fun stamp_eq :: "stamp \<Rightarrow> stamp \<Rightarrow> bool" where
  "stamp_eq (Timestamp a) (Timestamp b) = (a = b)"
| "stamp_eq _ _ = False"

fun stamp_sub :: "stamp \<Rightarrow> stamp \<Rightarrow> delta" where
  "stamp_sub (Timestamp a) (Timestamp b) = Timedelta (a - b)"
| "stamp_sub _ _ = NaTd"

fun days :: "delta \<Rightarrow> int option" where
  "days (Timedelta n) = Some (n div day_ns)"
| "days NaTd = None"

fun nan_le :: "int option \<Rightarrow> int \<Rightarrow> bool" where
  "nan_le (Some k) n = (k \<le> n)"
| "nan_le None n = False"

text \<open>
  \<^verbatim>\<open>timedelta(days=n)\<close> of the standard library raises OverflowError when the
  magnitude of \<open>n\<close> exceeds 999999999. \<^verbatim>\<open>Timestamp + timedelta\<close> is exact; it raises
  when the timedelta or the sum does not fit the 64 bits of microseconds, and is NaT
  on NaT.
\<close>

definition timedelta_days :: "int \<Rightarrow> int option" where
  "timedelta_days n = (if \<bar>n\<bar> \<le> 999999999 then Some (n * day_ns) else None)"

fun stamp_add :: "stamp \<Rightarrow> int \<Rightarrow> stamp option" where
  "stamp_add (Timestamp t) dt =
     (if \<bar>dt\<bar> \<le> us_max \<and> \<bar>t + dt\<bar> \<le> us_max then Some (Timestamp (t + dt)) else None)"
| "stamp_add NaT dt = Some NaT"

section \<open>The calendar and \<^verbatim>\<open>strftime("%Y-%m-%d")\<close>\<close>

text \<open>
  The proleptic Gregorian calendar on day numbers (days since 1970-01-01), in both
  directions, by the usual era arithmetic: an era is 400 years, 146097 days, and the
  year is taken to start in March so that the leap day is its last day.
\<close>

definition civil_from_days :: "int \<Rightarrow> int \<times> int \<times> int" where
  "civil_from_days z =
     (let z1 = z + 719468;
          era = z1 div 146097;
          doe = z1 - era * 146097;
          yoe = (doe - doe div 1460 + doe div 36524 - doe div 146096) div 365;
          doy = doe - (365 * yoe + yoe div 4 - yoe div 100);
          mp = (5 * doy + 2) div 153;
          d = doy - (153 * mp + 2) div 5 + 1;
          m = (if mp < 10 then mp + 3 else mp - 9);
          y = yoe + era * 400
      in (if m \<le> 2 then y + 1 else y, m, d))"

definition days_from_civil :: "int \<Rightarrow> int \<Rightarrow> int \<Rightarrow> int" where
  "days_from_civil y m d =
     (let y1 = (if m \<le> 2 then y - 1 else y);
          era = y1 div 400;
          yoe = y1 - era * 400;
          doy = (153 * (if m > 2 then m - 3 else m + 9) + 2) div 5 + d - 1;
          doe = yoe * 365 + yoe div 4 - yoe div 100 + doy
      in era * 146097 + doe - 719468)"

definition digit_char :: "int \<Rightarrow> char" where
  "digit_char n = ''0123456789'' ! nat (n mod 10)"

definition pad2 :: "int \<Rightarrow> string" where
  "pad2 n = [digit_char (n div 10), digit_char n]"

text \<open>
  \<^verbatim>\<open>%Y\<close> is the year as the C library prints it: on Linux in decimal without padding,
  so 999 and not 0999. \<^verbatim>\<open>%m\<close> and \<^verbatim>\<open>%d\<close> have two digits.
\<close>

definition year_text :: "int \<Rightarrow> string" where
  "year_text y =
     (if y < 10 then [digit_char y]
      else if y < 100 then pad2 y
      else if y < 1000 then digit_char (y div 100) # pad2 y
      else digit_char (y div 1000) # digit_char (y div 100) # pad2 y)"

definition format_date :: "int \<Rightarrow> string" where
  "format_date z =
     (case civil_from_days z of (y, m, d) \<Rightarrow> year_text y @ ''-'' @ pad2 m @ ''-'' @ pad2 d)"

text \<open>
  \<^verbatim>\<open>ts.strftime("%Y-%m-%d")\<close>: pandas builds a \<^verbatim>\<open>datetime\<close> of the standard library
  from the fields of the timestamp and formats that one. Outside the years 1 to 9999
  there is no such \<^verbatim>\<open>datetime\<close> and the method raises; on NaT it raises as well.
\<close>

fun strftime_ymd :: "stamp \<Rightarrow> string option" where
  "strftime_ymd (Timestamp t) =
     (if date_min \<le> t div day_ns \<and> t div day_ns \<le> date_max
      then Some (format_date (t div day_ns)) else None)"
| "strftime_ymd NaT = None"

section \<open>The two date functions\<close>

text \<open>
  \<^verbatim>\<open>pd.to_datetime\<close> accepts far more than one date format, so it is a parameter of the
  model: \<open>to_datetime c\<close> is \<open>None\<close> where the library raises, \<open>Some NaT\<close> where it answers
  not-a-time (as it does for the text \<^verbatim>\<open>NaT\<close>) and \<open>Some (Timestamp t)\<close> otherwise.

  \<^verbatim>\<open>
  def calculate_due_date(previous_date, frequency_days=30):
      if pd.isna(previous_date) or previous_date == "":
          return ""
      try:
          prev_date = pd.to_datetime(previous_date)
          due_date = prev_date + timedelta(days=frequency_days)
          return due_date.strftime("%Y-%m-%d")
      except:
          return ""
  \<close>
  The body of the \<^verbatim>\<open>try\<close> is a computation in the option monad; the bare
  \<^verbatim>\<open>except\<close> turns every exception into the empty text.
\<close>

definition calculate_due_date :: "(cell \<Rightarrow> stamp option) \<Rightarrow> cell \<Rightarrow> int \<Rightarrow> string" where
  "calculate_due_date to_datetime previous_date frequency_days =
     (if isna previous_date \<or> previous_date = Text '''' then ''''
      else case (do {
             prev_date \<leftarrow> to_datetime previous_date;
             td \<leftarrow> timedelta_days frequency_days;
             due_date \<leftarrow> stamp_add prev_date td;
             strftime_ymd due_date
           }) of
             Some s \<Rightarrow> s
           | None \<Rightarrow> '''')"

text \<open>
  \<^verbatim>\<open>
  def get_payment_status(due_date):
      if pd.isna(due_date) or due_date == "":
          return "Unknown"
      try:
          due = pd.to_datetime(due_date)
          today = pd.to_datetime(datetime.now().date())
          if due < today:
              return "Overdue"
          elif due == today:
              return "Due Today"
          elif (due - today).days <= 7:
              return "Due Soon"
          else:
              return "Upcoming"
      except:
          return "Unknown"
  \<close>
\<close>

definition get_payment_status :: "(cell \<Rightarrow> stamp option) \<Rightarrow> int \<Rightarrow> cell \<Rightarrow> string" where
  "get_payment_status to_datetime today_date due_date =
     (if isna due_date \<or> due_date = Text '''' then ''Unknown''
      else case to_datetime due_date of
             None \<Rightarrow> ''Unknown''
           | Some due \<Rightarrow>
               (let today = midnight today_date in
                if stamp_less due today then ''Overdue''
                else if stamp_eq due today then ''Due Today''
                else if nan_le (days (stamp_sub due today)) 7 then ''Due Soon''
                else ''Upcoming''))"

section \<open>A parser for evaluation\<close>

text \<open>
  To run the functions on concrete cells, \<open>iso_to_datetime\<close> is the behaviour of
  \<^verbatim>\<open>pd.to_datetime\<close> on the cells used below: a \<^verbatim>\<open>YYYY-MM-DD\<close> text of the years 0001
  to 9999 is midnight of that day, the texts \<^verbatim>\<open>NaT\<close>, \<^verbatim>\<open>nat\<close> and \<^verbatim>\<open>NAT\<close> and a missing
  value are not-a-time, and a date that does not exist raises. It is not run on other
  cells: its \<open>None\<close> for them is what pandas does for a text without any date in it, and
  not what pandas does for a number, a date with a time or a date in another format.
  The general theorems do not depend on it: they hold for every \<open>to_datetime\<close>.
\<close>

definition is_digit :: "char \<Rightarrow> bool" where
  "is_digit c = (48 \<le> (of_char c :: int) \<and> (of_char c :: int) \<le> 57)"

definition digit_val :: "char \<Rightarrow> int" where
  "digit_val c = of_char c - 48"

definition is_leap :: "int \<Rightarrow> bool" where
  "is_leap y = (y mod 4 = 0 \<and> (y mod 100 \<noteq> 0 \<or> y mod 400 = 0))"

definition days_in_month :: "int \<Rightarrow> int \<Rightarrow> int" where
  "days_in_month y m =
     (if m = 2 then (if is_leap y then 29 else 28)
      else if m = 4 \<or> m = 6 \<or> m = 9 \<or> m = 11 then 30 else 31)"

fun parse_iso :: "string \<Rightarrow> stamp option" where
  "parse_iso [y1, y2, y3, y4, s1, m1, m2, s2, d1, d2] =
     (if s1 = CHR ''-'' \<and> s2 = CHR ''-'' \<and> list_all is_digit [y1, y2, y3, y4, m1, m2, d1, d2]
      then
        (let y = 1000 * digit_val y1 + 100 * digit_val y2 + 10 * digit_val y3 + digit_val y4;
             m = 10 * digit_val m1 + digit_val m2;
             d = 10 * digit_val d1 + digit_val d2
         in if 1 \<le> y \<and> 1 \<le> m \<and> m \<le> 12 \<and> 1 \<le> d \<and> d \<le> days_in_month y m
            then Some (midnight (days_from_civil y m d)) else None)
      else None)"
| "parse_iso s = None"

definition iso_to_datetime :: "cell \<Rightarrow> stamp option" where
  "iso_to_datetime c =
     (case c of
        Text s \<Rightarrow> (if s = ''NaT'' \<or> s = ''nat'' \<or> s = ''NAT'' then Some NaT else parse_iso s)
      | NaN \<Rightarrow> Some NaT
      | Num r \<Rightarrow> None)"

section \<open>The history table\<close>

text \<open>
  A DataFrame is its columns, in order, each a name with one cell per row, and the
  length of its index. Every frame of the program has the index \<open>0, \<dots>, n - 1\<close>:
  \<^verbatim>\<open>read_csv\<close> creates it, \<^verbatim>\<open>concat(ignore_index=True)\<close> and
  \<^verbatim>\<open>reset_index(drop=True)\<close> restore it, so the label of a row is its position.
\<close>

record dataframe =
  nrows :: nat
  cols :: "(string \<times> cell list) list"

datatype error = KeyError | OverflowError

definition well_formed :: "dataframe \<Rightarrow> bool" where
  "well_formed df = list_all (\<lambda>(c, vs). length vs = nrows df) (cols df)"

definition columns :: "dataframe \<Rightarrow> string list" where
  "columns df = map fst (cols df)"

text \<open>\<^verbatim>\<open>df[c]\<close> raises KeyError for a name that is not a column.\<close>

definition get_column :: "dataframe \<Rightarrow> string \<Rightarrow> error + cell list" where
  "get_column df c = (case map_of (cols df) c of Some vs \<Rightarrow> Inr vs | None \<Rightarrow> Inl KeyError)"

text \<open>\<^verbatim>\<open>df[c] = values\<close> replaces the column \<open>c\<close> in place, or appends it as the last column.\<close>

fun set_column :: "(string \<times> cell list) list \<Rightarrow> string \<Rightarrow> cell list \<Rightarrow> (string \<times> cell list) list" where
  "set_column [] c vs = [(c, vs)]"
| "set_column ((k, old) # rest) c vs =
     (if k = c then (k, vs) # rest else (k, old) # set_column rest c vs)"

text \<open>\<^verbatim>\<open>df[c] = v\<close> for a scalar \<open>v\<close>: the value in every row.\<close>

definition set_scalar :: "dataframe \<Rightarrow> string \<Rightarrow> cell \<Rightarrow> dataframe" where
  "set_scalar df c v = df\<lparr>cols := set_column (cols df) c (replicate (nrows df) v)\<rparr>"

text \<open>The record at position \<open>i\<close>: the cell of every column in that row.\<close>

definition row :: "dataframe \<Rightarrow> nat \<Rightarrow> (string \<times> cell) list" where
  "row df i = map (\<lambda>(c, vs). (c, vs ! i)) (cols df)"

subsection \<open>Loading\<close>

definition required_cols :: "string list" where
  "required_cols =
     [''BHK'', ''Size'', ''Bathroom'', ''Furnishing Status'', ''Tenant Preferred'',
      ''City'', ''Point of Contact'', ''Area Locality'', ''Posted On'', ''Area Type'', ''Floor'',
      ''Predicted Rent'', ''Tenant Name'', ''Telephone Number'', ''Previous Payment Date'',
      ''Next Payment Due Date'', ''Payment Status'']"

text \<open>
  \<^verbatim>\<open>
  def load_history():
      if os.path.exists(HISTORY_FILE):
          history_df = pd.read_csv(HISTORY_FILE)
          required_cols = [...]
          for col in required_cols:
              if col not in history_df.columns:
                  history_df[col] = ""
      else:
          history_df = pd.DataFrame(columns=[...])
      return history_df, HISTORY_FILE
  \<close>
  The argument is the frame that \<^verbatim>\<open>pd.read_csv\<close> returns, or \<open>None\<close> when the file does
  not exist.
\<close>

definition ensure_col :: "string \<Rightarrow> dataframe \<Rightarrow> dataframe" where
  "ensure_col col df = (if col \<notin> set (columns df) then set_scalar df col (Text '''') else df)"

definition load_history :: "dataframe option \<Rightarrow> dataframe" where
  "load_history file =
     (case file of
        Some history_df \<Rightarrow> fold ensure_col required_cols history_df
      | None \<Rightarrow> \<lparr>nrows = 0, cols = map (\<lambda>c. (c, [])) required_cols\<rparr>)"

subsection \<open>Recomputing the payment status\<close>

text \<open>
  \<^verbatim>\<open>
  history_df['Payment Status'] = history_df['Next Payment Due Date'].apply(get_payment_status)
  \<close>
\<close>

definition recompute_statuses :: "(cell \<Rightarrow> stamp option) \<Rightarrow> int \<Rightarrow> dataframe \<Rightarrow> error + dataframe" where
  "recompute_statuses to_datetime today_date df =
     (case get_column df ''Next Payment Due Date'' of
        Inl e \<Rightarrow> Inl e
      | Inr due \<Rightarrow>
          Inr (df\<lparr>cols := set_column (cols df) ''Payment Status''
                         (map (\<lambda>d. Text (get_payment_status to_datetime today_date d)) due)\<rparr>))"

subsection \<open>The payment status overview\<close>

text \<open>
  \<^verbatim>\<open>Series.value_counts()\<close> counts the occurrences of every value, missing values
  apart: each cell in turn adds one to the count of its value. \<^verbatim>\<open>.get(key, 0)\<close> reads
  a count, 0 for a value that does not occur. (pandas orders the result by count; no
  reader below depends on the order.)
\<close>

fun bump :: "cell \<Rightarrow> (cell \<times> nat) list \<Rightarrow> (cell \<times> nat) list" where
  "bump v [] = [(v, 1)]"
| "bump v ((k, n) # rest) = (if k = v then (k, Suc n) # rest else (k, n) # bump v rest)"

definition value_counts :: "cell list \<Rightarrow> (cell \<times> nat) list" where
  "value_counts vs = fold bump (filter (\<lambda>v. \<not> isna v) vs) []"

definition counts_get :: "(cell \<times> nat) list \<Rightarrow> cell \<Rightarrow> nat" where
  "counts_get vc k = (case map_of vc k of Some n \<Rightarrow> n | None \<Rightarrow> 0)"

definition status_counts :: "dataframe \<Rightarrow> error + (cell \<times> nat) list" where
  "status_counts df =
     (case get_column df ''Payment Status'' of Inl e \<Rightarrow> Inl e | Inr ps \<Rightarrow> Inr (value_counts ps))"

text \<open>
  \<^verbatim>\<open>
  status_counts = tenant_summary['Payment Status'].value_counts()
  col1, col2, col3, col4 = st.columns(4)
  with col1: st.metric("Overdue", status_counts.get("Overdue", 0))
  with col2: st.metric("Due Soon", status_counts.get("Due Soon", 0))
  with col3: st.metric("Due Today", status_counts.get("Due Today", 0))
  with col4: st.metric("Upcoming", status_counts.get("Upcoming", 0))
  \<close>
  The summary holds the payment status column of the history; the overview is the four
  metrics, in the order of the columns. No metric reads the count of Unknown.
\<close>

definition overview_metrics :: "(cell \<times> nat) list \<Rightarrow> nat \<times> nat \<times> nat \<times> nat" where
  "overview_metrics sc =
     (counts_get sc (Text ''Overdue''), counts_get sc (Text ''Due Soon''),
      counts_get sc (Text ''Due Today''), counts_get sc (Text ''Upcoming''))"

definition payment_status_overview :: "dataframe \<Rightarrow> error + nat \<times> nat \<times> nat \<times> nat" where
  "payment_status_overview df =
     (case status_counts df of Inl e \<Rightarrow> Inl e | Inr sc \<Rightarrow> Inr (overview_metrics sc))"

text \<open>
  In the words of the specification: the number of records of the history whose payment
  status is \<open>s\<close>, counted record by record.
\<close>

definition records_with_status :: "dataframe \<Rightarrow> string \<Rightarrow> nat" where
  "records_with_status df s =
     length (filter (\<lambda>i. map_of (row df i) ''Payment Status'' = Some (Text s)) [0..<nrows df])"

subsection \<open>Deleting a row\<close>

text \<open>
  \<^verbatim>\<open>
  if st.button("Delete Row"):
      history_df.drop(index=delete_index, inplace=True)
      history_df.reset_index(drop=True, inplace=True)
      history_df.to_csv(HISTORY_FILE, index=False)
  \<close>
  \<^verbatim>\<open>drop\<close> raises KeyError for a label that is not in the index, before it changes
  anything; a negative number is not a label. The state of the application is the frame
  in memory and the frame last written to the file.
\<close>

definition drop_row :: "dataframe \<Rightarrow> int \<Rightarrow> error + dataframe" where
  "drop_row df i =
     (if 0 \<le> i \<and> i < int (nrows df)
      then Inr \<lparr>nrows = nrows df - 1,
                cols = map (\<lambda>(c, vs). (c, take (nat i) vs @ drop (Suc (nat i)) vs)) (cols df)\<rparr>
      else Inl KeyError)"

record app =
  history_df :: dataframe
  history_file :: "dataframe option"

definition delete_row :: "app \<Rightarrow> int \<Rightarrow> error option \<times> app" where
  "delete_row st delete_index =
     (case drop_row (history_df st) delete_index of
        Inl e \<Rightarrow> (Some e, st)
      | Inr df \<Rightarrow> (None, \<lparr>history_df = df, history_file = Some df\<rparr>))"

subsection \<open>The due date of a new record\<close>

text \<open>
  \<^verbatim>\<open>
  Next_Payment_Due_Date = ""
  if Previous_Payment_Date:
      due_date = Previous_Payment_Date + timedelta(days=frequency_days)
      Next_Payment_Due_Date = due_date.strftime("%Y-%m-%d")
  \<close>
  Here the previous payment date is a \<^verbatim>\<open>datetime.date\<close> of the date picker (a day
  number of the calendar, \<open>None\<close> when there is none), not a text. A sum outside the
  calendar raises OverflowError, as the \<^verbatim>\<open>timedelta\<close> itself may, and nothing catches
  it here.
\<close>

definition next_payment_due_date :: "int option \<Rightarrow> int \<Rightarrow> error + string" where
  "next_payment_due_date previous_payment_date frequency_days =
     (case previous_payment_date of
        None \<Rightarrow> Inr ''''
      | Some d \<Rightarrow>
          (case timedelta_days frequency_days of
             None \<Rightarrow> Inl OverflowError
           | Some td \<Rightarrow>
               if date_min \<le> d + frequency_days \<and> d + frequency_days \<le> date_max
               then Inr (format_date (d + frequency_days))
               else Inl OverflowError))"

section \<open>A history to run the operations on\<close>

text \<open>
  Three records, read on 2024-06-10 (day 19884): one due the day before, one without a
  due date, one due a week later. The stored statuses are stale.
\<close>

definition example_df :: dataframe where
  "example_df =
     \<lparr>nrows = 3,
      cols = [(''Tenant Name'', [Text ''Asha'', Text ''Ben'', Text ''Chen'']),
              (''Next Payment Due Date'', [Text ''2024-06-09'', NaN, Text ''2024-06-17'']),
              (''Payment Status'', [Text ''Upcoming'', NaN, NaN])]\<rparr>"

definition example_recomputed :: dataframe where
  "example_recomputed =
     \<lparr>nrows = 3,
      cols = [(''Tenant Name'', [Text ''Asha'', Text ''Ben'', Text ''Chen'']),
              (''Next Payment Due Date'', [Text ''2024-06-09'', NaN, Text ''2024-06-17'']),
              (''Payment Status'', [Text ''Overdue'', Text ''Unknown'', Text ''Due Soon''])]\<rparr>"

definition example_app :: app where
  "example_app = \<lparr>history_df = example_df, history_file = Some example_df\<rparr>"

section \<open>Timestamps of calendar dates\<close>

lemma day_ns_pos: "0 < day_ns"
  by (simp add: day_ns_def)

lemma midnight_less: "stamp_less (midnight a) (midnight b) = (a < b)"
  using day_ns_pos by (simp add: midnight_def)

lemma midnight_eq: "stamp_eq (midnight a) (midnight b) = (a = b)"
  using day_ns_pos by (simp add: midnight_def)

lemma midnight_days: "days (stamp_sub (midnight a) (midnight b)) = Some (a - b)"
proof -
  have "a * day_ns - b * day_ns = (a - b) * day_ns"
    by (simp add: left_diff_distrib)
  then show ?thesis
    using day_ns_pos by (simp add: midnight_def)
qed

lemma date_shift: "(t + f * day_ns) div day_ns = t div day_ns + f"
  using day_ns_pos by simp

section \<open>The payment status of a due date\<close>

text \<open>
  A due date with a time of day is compared as a timestamp: it is overdue before
  midnight of today, due today only at that midnight, and due soon while fewer than
  eight whole days separate it from that midnight.
\<close>

lemma get_payment_status_timestamp:
  assumes "\<not> isna c" and "c \<noteq> Text ''''" and "to_datetime c = Some (Timestamp t)"
  shows "get_payment_status to_datetime today c =
           (if t < today * day_ns then ''Overdue''
            else if t = today * day_ns then ''Due Today''
            else if (t - today * day_ns) div day_ns \<le> 7 then ''Due Soon''
            else ''Upcoming'')"
  using assms by (simp add: get_payment_status_def midnight_def Let_def)

lemma get_payment_status_midnight:
  assumes "\<not> isna c" and "c \<noteq> Text ''''" and "to_datetime c = Some (midnight d)"
  shows "get_payment_status to_datetime today c =
           (if d < today then ''Overdue''
            else if d = today then ''Due Today''
            else if d - today \<le> 7 then ''Due Soon''
            else ''Upcoming'')"
  using assms by (simp add: get_payment_status_def midnight_less midnight_eq midnight_days Let_def)

lemma get_payment_status_cases:
  "get_payment_status to_datetime today c
     \<in> {''Unknown'', ''Overdue'', ''Due Today'', ''Due Soon'', ''Upcoming''}"
  by (simp add: get_payment_status_def Let_def split: option.splits)

text \<open>
  C1. For a due date that parses to a calendar date \<open>d\<close> and any current date, the
  status is Overdue exactly when \<open>d < today\<close>, Due Today exactly when \<open>d = today\<close>,
  Due Soon exactly when \<open>today < d\<close> and \<open>d - today \<le> 7\<close>, Upcoming exactly when
  \<open>d - today > 7\<close>, and never Unknown: the four cases exclude each other and cover every
  parseable date. The seventh day is still Due Soon, the eighth is Upcoming.
\<close>

theorem classify_calendar_date:
  assumes "\<not> isna c" and "c \<noteq> Text ''''" and "to_datetime c = Some (midnight d)"
  shows "(get_payment_status to_datetime today c = ''Overdue'') = (d < today)
       \<and> (get_payment_status to_datetime today c = ''Due Today'') = (d = today)
       \<and> (get_payment_status to_datetime today c = ''Due Soon'') = (today < d \<and> d - today \<le> 7)
       \<and> (get_payment_status to_datetime today c = ''Upcoming'') = (7 < d - today)
       \<and> get_payment_status to_datetime today c \<noteq> ''Unknown''"
  using get_payment_status_midnight [of c to_datetime d today, OF assms] by auto

theorem classify_calendar_date_witness:
  "iso_to_datetime (Text ''2024-06-17'') = Some (midnight (19884 + 7))
   \<and> get_payment_status iso_to_datetime 19884 (Text ''2024-06-17'') = ''Due Soon''
   \<and> iso_to_datetime (Text ''2024-06-18'') = Some (midnight (19884 + 8))
   \<and> get_payment_status iso_to_datetime 19884 (Text ''2024-06-18'') = ''Upcoming''"
proof -
  have a: "iso_to_datetime (Text ''2024-06-17'') = Some (midnight (19884 + 7))"
    by code_simp
  have b: "iso_to_datetime (Text ''2024-06-18'') = Some (midnight (19884 + 8))"
    by code_simp
  have "get_payment_status iso_to_datetime 19884 (Text ''2024-06-17'') = ''Due Soon''"
    using classify_calendar_date [of "Text ''2024-06-17''" iso_to_datetime "19884 + 7" 19884] a
    by simp
  moreover have "get_payment_status iso_to_datetime 19884 (Text ''2024-06-18'') = ''Upcoming''"
    using classify_calendar_date [of "Text ''2024-06-18''" iso_to_datetime "19884 + 8" 19884] b
    by simp
  ultimately show ?thesis
    using a b by simp
qed

section \<open>The due date calculator\<close>

lemma day_of_bounds: "t div day_ns * day_ns \<le> t \<and> t < t div day_ns * day_ns + day_ns"
proof -
  have "t div day_ns * day_ns + t mod day_ns = t"
    by (rule div_mult_mod_eq)
  moreover have "0 \<le> t mod day_ns" and "t mod day_ns < day_ns"
    using day_ns_pos by simp_all
  ultimately show ?thesis by linarith
qed

text \<open>Between two days of the calendar, the timedelta and the sum fit the microseconds.\<close>

lemma calendar_fits:
  assumes "date_min \<le> t div day_ns" and "t div day_ns \<le> date_max"
    and "date_min \<le> t div day_ns + f" and "t div day_ns + f \<le> date_max"
  shows "\<bar>f\<bar> \<le> 999999999" and "\<bar>f * day_ns\<bar> \<le> us_max" and "\<bar>t + f * day_ns\<bar> \<le> us_max"
proof -
  have f: "- 3652058 \<le> f" "f \<le> 3652058"
    using assms by (simp_all add: date_min_def date_max_def)
  from f show "\<bar>f\<bar> \<le> 999999999"
    by simp
  from f show "\<bar>f * day_ns\<bar> \<le> us_max"
    by (simp add: day_ns_def us_max_def abs_le_iff)
  have "(t div day_ns + f) * day_ns \<le> t + f * day_ns"
    and "t + f * day_ns < (t div day_ns + f) * day_ns + day_ns"
    using day_of_bounds [of t] by (simp_all add: distrib_right)
  moreover have "date_min * day_ns \<le> (t div day_ns + f) * day_ns"
    and "(t div day_ns + f) * day_ns \<le> date_max * day_ns"
    using assms(3,4) day_ns_pos by simp_all
  ultimately show "\<bar>t + f * day_ns\<bar> \<le> us_max"
    by (simp add: day_ns_def us_max_def date_min_def date_max_def abs_le_iff)
qed

text \<open>
  What the calculator returns for a reference date of the calendar: the day shifted by
  the frequency while that day is in the calendar, the empty text once it is not (the
  timedelta, the sum or, at the latest, \<^verbatim>\<open>strftime\<close> has raised).
\<close>

lemma calculate_due_date_calendar:
  assumes "\<not> isna c" and "c \<noteq> Text ''''" and "to_datetime c = Some (Timestamp t)"
    and "date_min \<le> t div day_ns" and "t div day_ns \<le> date_max"
  shows "calculate_due_date to_datetime c f =
           (if date_min \<le> t div day_ns + f \<and> t div day_ns + f \<le> date_max
            then format_date (t div day_ns + f) else '''')"
proof (cases "date_min \<le> t div day_ns + f \<and> t div day_ns + f \<le> date_max")
  case True
  then have "\<bar>f\<bar> \<le> 999999999" and "\<bar>f * day_ns\<bar> \<le> us_max" and "\<bar>t + f * day_ns\<bar> \<le> us_max"
    using calendar_fits [of t f] assms(4,5) by simp_all
  then show ?thesis
    using True assms(1,2,3) by (simp add: calculate_due_date_def timedelta_days_def date_shift)
next
  case False
  then show ?thesis
    using assms(1,2,3)
    by (auto simp add: calculate_due_date_def timedelta_days_def date_shift)
qed

lemma calculate_due_date_absent:
  "isna c \<or> c = Text '''' \<Longrightarrow> calculate_due_date to_datetime c f = ''''"
  by (auto simp add: calculate_due_date_def)

lemma calculate_due_date_overflow:
  "999999999 < \<bar>f\<bar> \<Longrightarrow> calculate_due_date to_datetime c f = ''''"
  by (simp add: calculate_due_date_def timedelta_days_def split: option.splits)

text \<open>The same sum where a record is created, on the date of the date picker.\<close>

lemma next_payment_due_date_calendar:
  assumes "date_min \<le> d" and "d \<le> date_max"
  shows "next_payment_due_date (Some d) f =
           (if date_min \<le> d + f \<and> d + f \<le> date_max
            then Inr (format_date (d + f)) else Inl OverflowError)"
proof (cases "date_min \<le> d + f \<and> d + f \<le> date_max")
  case True
  then have "\<bar>f\<bar> \<le> 999999999"
    using assms unfolding date_min_def date_max_def by linarith
  then show ?thesis
    using True by (simp add: next_payment_due_date_def timedelta_days_def)
next
  case False
  then show ?thesis
    by (simp add: next_payment_due_date_def timedelta_days_def)
qed

text \<open>
  C2, as amended. Neither computation of the due date can leave the calendar of the
  standard library, which ends on 9999-12-31: in the calculator the \<^verbatim>\<open>timedelta\<close>, the
  sum or \<^verbatim>\<open>strftime\<close> raises and the bare \<^verbatim>\<open>except\<close> returns the empty text, and where
  a record is created the sum raises OverflowError. So: for every reference date of the
  calendar and every positive frequency \<open>f\<close>, the due date is the text of exactly the
  reference day advanced by \<open>f\<close> calendar days whenever that day is not after
  9999-12-31; otherwise the calculator returns the absent (empty) due date, and the
  computation for a new record fails. An absent reference date gives the absent due
  date whatever the frequency. As stated, for every positive integer, the claim fails:
  for 2024-05-01 a frequency of 1000000000 days gives the empty text, and so do the
  3000000 days that end in the year 10238.
\<close>

theorem calculate_due_date_positive:
  assumes "\<not> isna c" and "c \<noteq> Text ''''" and "to_datetime c = Some (Timestamp t)"
    and "date_min \<le> t div day_ns" and "t div day_ns \<le> date_max" and "0 < f"
  shows "calculate_due_date to_datetime c f =
           (if t div day_ns + f \<le> date_max then format_date (t div day_ns + f) else '''')
       \<and> next_payment_due_date (Some (t div day_ns)) f =
           (if t div day_ns + f \<le> date_max
            then Inr (format_date (t div day_ns + f)) else Inl OverflowError)
       \<and> calculate_due_date to_datetime NaN g = ''''
       \<and> calculate_due_date to_datetime (Text '''') g = ''''
       \<and> next_payment_due_date None g = Inr ''''"
proof -
  have lo: "date_min \<le> t div day_ns + f"
    using assms(4,6) by simp
  have "calculate_due_date to_datetime c f =
           (if t div day_ns + f \<le> date_max then format_date (t div day_ns + f) else '''')"
    using calculate_due_date_calendar [of c to_datetime t f] assms(1-5) lo by simp
  moreover have "next_payment_due_date (Some (t div day_ns)) f =
           (if t div day_ns + f \<le> date_max
            then Inr (format_date (t div day_ns + f)) else Inl OverflowError)"
    using next_payment_due_date_calendar [of "t div day_ns" f] assms(4,5) lo by simp
  moreover have "next_payment_due_date None g = Inr ''''"
    by (simp add: next_payment_due_date_def)
  ultimately show ?thesis
    by (simp add: calculate_due_date_absent)
qed

theorem calculate_due_date_positive_witness:
  "iso_to_datetime (Text ''2024-05-01'') = Some (Timestamp (19844 * day_ns))
   \<and> date_min \<le> 19844 \<and> 19844 \<le> date_max
   \<and> calculate_due_date iso_to_datetime (Text ''2024-05-01'') 30 = ''2024-05-31''
   \<and> next_payment_due_date (Some 19844) 30 = Inr ''2024-05-31''
   \<and> calculate_due_date iso_to_datetime NaN 30 = ''''"
proof -
  have p: "iso_to_datetime (Text ''2024-05-01'') = Some (Timestamp (19844 * day_ns))"
    by code_simp
  have d: "19844 * day_ns div day_ns = 19844"
    by (simp add: day_ns_def)
  have lo: "date_min \<le> 19844" and hi: "19844 \<le> date_max" and hi': "19844 + 30 \<le> date_max"
    by (simp_all add: date_min_def date_max_def)
  have fmt: "format_date (19844 + 30) = ''2024-05-31''"
    by code_simp
  have "calculate_due_date iso_to_datetime (Text ''2024-05-01'') 30 =
           (if 19844 * day_ns div day_ns + 30 \<le> date_max
            then format_date (19844 * day_ns div day_ns + 30) else '''')
       \<and> next_payment_due_date (Some (19844 * day_ns div day_ns)) 30 =
           (if 19844 * day_ns div day_ns + 30 \<le> date_max
            then Inr (format_date (19844 * day_ns div day_ns + 30)) else Inl OverflowError)
       \<and> calculate_due_date iso_to_datetime NaN 30 = ''''
       \<and> calculate_due_date iso_to_datetime (Text '''') 30 = ''''
       \<and> next_payment_due_date None 30 = Inr ''''"
    using p lo hi by (intro calculate_due_date_positive) (simp_all add: d)
  then show ?thesis
    using p lo hi hi' fmt by (simp add: d)
qed

theorem calculate_due_date_positive_counterexample:
  "iso_to_datetime (Text ''2024-05-01'') = Some (midnight 19844)
   \<and> calculate_due_date iso_to_datetime (Text ''2024-05-01'') 1000000000 = ''''
   \<and> calculate_due_date iso_to_datetime (Text ''2024-05-01'') 3000000 = ''''"
  by code_simp

text \<open>
  C10, as amended. The calculator has no check of the sign, and it cannot leave the
  calendar of the standard library (0001-01-01 to 9999-12-31): for every reference date
  of the calendar and every integer frequency, zero and negative ones included, the
  result is the text of exactly the reference day shifted by the frequency (an earlier
  day for a negative one) whenever that day is in the calendar, and the absent (empty)
  due date otherwise; no frequency is rejected for its sign. As stated, for every
  integer, the claim fails: for 2024-05-01 a frequency of -1000000000 days gives the
  empty text, and so do the -800000 days that end before the year 1.
\<close>

theorem calculate_due_date_any_sign:
  assumes "\<not> isna c" and "c \<noteq> Text ''''" and "to_datetime c = Some (Timestamp t)"
    and "date_min \<le> t div day_ns" and "t div day_ns \<le> date_max"
  shows "calculate_due_date to_datetime c f =
           (if date_min \<le> t div day_ns + f \<and> t div day_ns + f \<le> date_max
            then format_date (t div day_ns + f) else '''')"
  using calculate_due_date_calendar [of c to_datetime t f] assms by simp

theorem calculate_due_date_any_sign_witness:
  "iso_to_datetime (Text ''2024-05-01'') = Some (Timestamp (19844 * day_ns))
   \<and> date_min \<le> 19844 \<and> 19844 \<le> date_max
   \<and> calculate_due_date iso_to_datetime (Text ''2024-05-01'') (- 30) = ''2024-04-01''
   \<and> calculate_due_date iso_to_datetime (Text ''2024-05-01'') 0 = ''2024-05-01''"
proof -
  have p: "iso_to_datetime (Text ''2024-05-01'') = Some (Timestamp (19844 * day_ns))"
    by code_simp
  have d: "19844 * day_ns div day_ns = 19844"
    by (simp add: day_ns_def)
  have lo: "date_min \<le> 19844" and hi: "19844 \<le> date_max"
    by (simp_all add: date_min_def date_max_def)
  have fmt: "format_date 19814 = ''2024-04-01''" "format_date 19844 = ''2024-05-01''"
    by code_simp+
  have "calculate_due_date iso_to_datetime (Text ''2024-05-01'') (- 30) =
           (if date_min \<le> 19844 + (- 30) \<and> 19844 + (- 30) \<le> date_max
            then format_date (19844 + (- 30)) else '''')"
    using calculate_due_date_any_sign [of "Text ''2024-05-01''" iso_to_datetime
        "19844 * day_ns" "- 30"] p lo hi
    by (simp add: d)
  moreover have "calculate_due_date iso_to_datetime (Text ''2024-05-01'') 0 =
           (if date_min \<le> 19844 + 0 \<and> 19844 + 0 \<le> date_max
            then format_date (19844 + 0) else '''')"
    using calculate_due_date_any_sign [of "Text ''2024-05-01''" iso_to_datetime
        "19844 * day_ns" 0] p lo hi
    by (simp add: d)
  ultimately show ?thesis
    using p lo hi fmt by (simp add: date_min_def date_max_def)
qed

theorem calculate_due_date_any_sign_counterexample:
  "iso_to_datetime (Text ''2024-05-01'') = Some (midnight 19844)
   \<and> calculate_due_date iso_to_datetime (Text ''2024-05-01'') (- 1000000000) = ''''
   \<and> calculate_due_date iso_to_datetime (Text ''2024-05-01'') (- 800000) = ''''"
  by code_simp

section \<open>Dates that are absent or do not parse\<close>

text \<open>
  Both functions return a text on every input: the model has no error result for them,
  since the bare \<^verbatim>\<open>except\<close> leaves none. A missing cell, the empty text and a text on
  which the parser raises give Unknown and the empty due date.
\<close>

lemma get_payment_status_unknown:
  "isna c \<or> c = Text '''' \<or> to_datetime c = None \<Longrightarrow>
   get_payment_status to_datetime today c = ''Unknown''"
  by (auto simp add: get_payment_status_def)

lemma calculate_due_date_unparseable:
  "isna c \<or> c = Text '''' \<or> to_datetime c = None \<Longrightarrow> calculate_due_date to_datetime c f = ''''"
  by (auto simp add: calculate_due_date_def)

text \<open>
  Where the parser answers not-a-time instead of raising, nothing raises in the
  classifier either: both comparisons are False, the number of days is NaN, and the
  last branch is taken. The calculator fails at \<^verbatim>\<open>strftime\<close> and returns the empty text.
\<close>

lemma get_payment_status_NaT:
  "\<not> isna c \<Longrightarrow> c \<noteq> Text '''' \<Longrightarrow> to_datetime c = Some NaT \<Longrightarrow>
   get_payment_status to_datetime today c = ''Upcoming''"
  by (simp add: get_payment_status_def midnight_def)

lemma calculate_due_date_NaT:
  "to_datetime c = Some NaT \<Longrightarrow> calculate_due_date to_datetime c f = ''''"
  by (simp add: calculate_due_date_def split: option.splits)

text \<open>
  C7. The claim holds for missing cells, the empty text and texts on which the parser
  raises, and the calculator maps the text \<^verbatim>\<open>NaT\<close> to the absent due date. The
  classifier does not map that text to Unknown: it is no calendar date, the parser
  answers not-a-time for it without raising, and the status is Upcoming.
\<close>

theorem get_payment_status_NaT_text:
  "iso_to_datetime (Text ''NaT'') = Some NaT
   \<and> get_payment_status iso_to_datetime 19884 (Text ''NaT'') = ''Upcoming''
   \<and> calculate_due_date iso_to_datetime (Text ''NaT'') 30 = ''''"
  by code_simp

section \<open>Columns and rows\<close>

lemma map_of_set_column_same: "map_of (set_column cs c vs) c = Some vs"
  by (induction cs c vs rule: set_column.induct) auto

lemma map_of_set_column_other: "k \<noteq> c \<Longrightarrow> map_of (set_column cs c vs) k = map_of cs k"
  by (induction cs c vs rule: set_column.induct) auto

lemma set_column_idem: "set_column (set_column cs c vs) c vs = set_column cs c vs"
  by (induction cs c vs rule: set_column.induct) auto

lemma set_column_absent: "c \<notin> fst ` set cs \<Longrightarrow> set_column cs c vs = cs @ [(c, vs)]"
  by (induction cs c vs rule: set_column.induct) auto

lemma map_of_row: "map_of (row df i) c = map_option (\<lambda>vs. vs ! i) (map_of (cols df) c)"
  unfolding row_def by (induction "cols df" arbitrary: df) (auto simp: map_of_map)

lemma well_formed_column:
  "well_formed df \<Longrightarrow> map_of (cols df) c = Some vs \<Longrightarrow> length vs = nrows df"
  by (auto simp: well_formed_def list_all_iff dest!: map_of_SomeD)

lemma example_well_formed: "well_formed example_df"
  by (simp add: well_formed_def example_df_def)

section \<open>Loading the history\<close>

lemma distinct_required_cols: "distinct required_cols"
  by (simp add: required_cols_def)

lemma length_required_cols: "length required_cols = 17"
  by (simp add: required_cols_def)

lemma ensure_col_cols:
  "cols (ensure_col c df) =
     cols df @ (if c \<in> set (columns df) then [] else [(c, replicate (nrows df) (Text ''''))])"
  by (simp add: ensure_col_def set_scalar_def columns_def set_column_absent)

lemma ensure_col_nrows: "nrows (ensure_col c df) = nrows df"
  by (simp add: ensure_col_def set_scalar_def)

lemma fold_ensure_col_nrows: "nrows (fold ensure_col rs df) = nrows df"
  by (induction rs arbitrary: df) (simp_all add: ensure_col_nrows)

lemma fold_ensure_col_cols:
  "distinct rs \<Longrightarrow>
   cols (fold ensure_col rs df) =
     cols df @ map (\<lambda>c. (c, replicate (nrows df) (Text '''')))
                   (filter (\<lambda>c. c \<notin> set (columns df)) rs)"
proof (induction rs arbitrary: df)
  case Nil
  show ?case by simp
next
  case (Cons r rs)
  have "filter (\<lambda>c. c \<notin> set (columns (ensure_col r df))) rs
          = filter (\<lambda>c. c \<notin> set (columns df)) rs"
    using Cons.prems by (auto simp: columns_def ensure_col_cols intro!: filter_cong)
  with Cons show ?case
    by (simp add: ensure_col_cols ensure_col_nrows)
qed

lemma load_history_cols:
  "cols (load_history (Some df)) =
     cols df @ map (\<lambda>c. (c, replicate (nrows df) (Text '''')))
                   (filter (\<lambda>c. c \<notin> set (columns df)) required_cols)"
  by (simp add: load_history_def fold_ensure_col_cols distinct_required_cols)

lemma required_cols_loaded: "set required_cols \<subseteq> set (columns (load_history stored))"
proof (cases stored)
  case None
  then show ?thesis by (simp add: load_history_def columns_def comp_def)
next
  case (Some d)
  show ?thesis unfolding Some columns_def load_history_cols by (auto simp: columns_def comp_def)
qed

text \<open>
  C8. After loading, every one of the seventeen required columns is a column of the
  history. A stored table keeps its rows and its columns, in their order and with
  their cells, and is followed by the required columns it lacked, in the order of the
  list, each with the empty text in every row. Without a file the history is the
  empty table of the seventeen columns.
\<close>

theorem load_history_columns:
  "set required_cols \<subseteq> set (columns (load_history stored))
   \<and> length required_cols = 17
   \<and> load_history None = \<lparr>nrows = 0, cols = map (\<lambda>c. (c, [])) required_cols\<rparr>
   \<and> nrows (load_history (Some df)) = nrows df
   \<and> cols (load_history (Some df)) =
       cols df @ map (\<lambda>c. (c, replicate (nrows df) (Text '''')))
                     (filter (\<lambda>c. c \<notin> set (columns df)) required_cols)"
  using required_cols_loaded [of stored] load_history_cols [of df]
  by (simp add: length_required_cols fold_ensure_col_nrows load_history_def)

section \<open>Recomputing the statuses\<close>

lemma recompute_statuses_Inr:
  assumes "recompute_statuses to_datetime today df = Inr df'"
  obtains due where "map_of (cols df) ''Next Payment Due Date'' = Some due"
    and "df' = df\<lparr>cols := set_column (cols df) ''Payment Status''
                    (map (\<lambda>d. Text (get_payment_status to_datetime today d)) due)\<rparr>"
  using assms by (auto simp: recompute_statuses_def get_column_def split: option.splits)

lemma example_recompute:
  "recompute_statuses iso_to_datetime 19884 example_df = Inr example_recomputed"
  by code_simp

text \<open>A loaded history has the due date column, so the recomputation does not fail on it.\<close>

lemma recompute_statuses_loaded:
  "\<exists>df'. recompute_statuses to_datetime today (load_history stored) = Inr df'"
proof -
  have "''Next Payment Due Date'' \<in> set required_cols"
    by (simp add: required_cols_def)
  then have "''Next Payment Due Date'' \<in> set (columns (load_history stored))"
    using required_cols_loaded by blast
  then obtain due where "map_of (cols (load_history stored)) ''Next Payment Due Date'' = Some due"
    by (auto simp: columns_def dest: weak_map_of_SomeI)
  then show ?thesis
    by (simp add: recompute_statuses_def get_column_def)
qed

text \<open>
  C3. After the recomputation with a current date, the payment status of every stored
  record is the classifier's answer, for that date, on the due date stored in the same
  record; the due date is the one the record had before.
\<close>

theorem recompute_statuses_classifies:
  assumes "recompute_statuses to_datetime today df = Inr df'"
    and "well_formed df" and "i < nrows df'"
  shows "\<exists>d. map_of (row df i) ''Next Payment Due Date'' = Some d
           \<and> map_of (row df' i) ''Next Payment Due Date'' = Some d
           \<and> map_of (row df' i) ''Payment Status''
               = Some (Text (get_payment_status to_datetime today d))"
proof -
  from assms(1) obtain due where due: "map_of (cols df) ''Next Payment Due Date'' = Some due"
    and df': "df' = df\<lparr>cols := set_column (cols df) ''Payment Status''
                    (map (\<lambda>d. Text (get_payment_status to_datetime today d)) due)\<rparr>"
    by (rule recompute_statuses_Inr)
  have len: "length due = nrows df"
    using assms(2) due by (rule well_formed_column)
  have i: "i < length due"
    using assms(3) len df' by simp
  have "map_of (row df' i) ''Payment Status''
          = Some (Text (get_payment_status to_datetime today (due ! i)))"
    using i by (simp add: map_of_row df' map_of_set_column_same)
  moreover have "map_of (row df' i) ''Next Payment Due Date'' = Some (due ! i)"
    by (simp add: map_of_row df' map_of_set_column_other due)
  moreover have "map_of (row df i) ''Next Payment Due Date'' = Some (due ! i)"
    by (simp add: map_of_row due)
  ultimately show ?thesis by blast
qed

theorem recompute_statuses_classifies_witness:
  "recompute_statuses iso_to_datetime 19884 example_df = Inr example_recomputed
   \<and> well_formed example_df \<and> 2 < nrows example_recomputed
   \<and> (\<exists>d. map_of (row example_df 2) ''Next Payment Due Date'' = Some d
           \<and> map_of (row example_recomputed 2) ''Next Payment Due Date'' = Some d
           \<and> map_of (row example_recomputed 2) ''Payment Status''
               = Some (Text (get_payment_status iso_to_datetime 19884 d)))"
proof -
  have n: "2 < nrows example_recomputed"
    by (simp add: example_recomputed_def)
  show ?thesis
    using recompute_statuses_classifies [OF example_recompute example_well_formed n]
      example_recompute example_well_formed n
    by blast
qed

text \<open>
  C9. Recomputing twice with the same current date gives what recomputing once gives:
  the second run leaves the whole table, and so every payment status, as it is.
\<close>

theorem recompute_statuses_idempotent:
  assumes "recompute_statuses to_datetime today df = Inr df'"
  shows "recompute_statuses to_datetime today df' = Inr df'"
proof -
  from assms obtain due where due: "map_of (cols df) ''Next Payment Due Date'' = Some due"
    and df': "df' = df\<lparr>cols := set_column (cols df) ''Payment Status''
                    (map (\<lambda>d. Text (get_payment_status to_datetime today d)) due)\<rparr>"
    by (rule recompute_statuses_Inr)
  have "map_of (cols df') ''Next Payment Due Date'' = Some due"
    by (simp add: df' map_of_set_column_other due)
  then show ?thesis
    by (simp add: recompute_statuses_def get_column_def df' set_column_idem)
qed

theorem recompute_statuses_idempotent_witness:
  "recompute_statuses iso_to_datetime 19884 example_df = Inr example_recomputed
   \<and> recompute_statuses iso_to_datetime 19884 example_recomputed = Inr example_recomputed"
  using recompute_statuses_idempotent [OF example_recompute] example_recompute
  by simp

section \<open>The payment status overview\<close>

lemma counts_get_bump:
  "counts_get (bump x acc) v = counts_get acc v + (if x = v then 1 else 0)"
  by (induction x acc rule: bump.induct) (auto simp: counts_get_def)

lemma counts_get_fold_bump:
  "counts_get (fold bump xs acc) v = counts_get acc v + count_list xs v"
  by (induction xs arbitrary: acc) (auto simp: counts_get_bump)

lemma count_list_present: "\<not> isna v \<Longrightarrow> count_list (filter (\<lambda>v. \<not> isna v) vs) v = count_list vs v"
  by (induction vs) auto

lemma counts_get_value_counts: "\<not> isna v \<Longrightarrow> counts_get (value_counts vs) v = count_list vs v"
  by (simp add: value_counts_def counts_get_fold_bump count_list_present) (simp add: counts_get_def)

lemma count_list_positions:
  "length (filter (\<lambda>i. xs ! i = v) [0..<length xs]) = count_list xs v"
proof (induction xs rule: rev_induct)
  case Nil
  show ?case by simp
next
  case (snoc x xs)
  have "filter (\<lambda>i. (xs @ [x]) ! i = v) [0..<length xs] = filter (\<lambda>i. xs ! i = v) [0..<length xs]"
    by (rule filter_cong) (simp_all add: nth_append)
  with snoc show ?case by simp
qed

lemma records_with_status_column:
  assumes "map_of (cols df) ''Payment Status'' = Some ps" and "length ps = nrows df"
  shows "records_with_status df s = count_list ps (Text s)"
  using count_list_positions [of ps "Text s"] assms
  by (simp add: records_with_status_def map_of_row)

lemma count_statuses:
  "count_list (map (\<lambda>d. Text (get_payment_status to_datetime today d)) due) (Text ''Unknown'')
   + count_list (map (\<lambda>d. Text (get_payment_status to_datetime today d)) due) (Text ''Overdue'')
   + count_list (map (\<lambda>d. Text (get_payment_status to_datetime today d)) due) (Text ''Due Today'')
   + count_list (map (\<lambda>d. Text (get_payment_status to_datetime today d)) due) (Text ''Due Soon'')
   + count_list (map (\<lambda>d. Text (get_payment_status to_datetime today d)) due) (Text ''Upcoming'')
   = length due"
proof (induction due)
  case Nil
  show ?case by simp
next
  case (Cons d due)
  from get_payment_status_cases [of to_datetime today d] Cons show ?case
    by auto
qed

text \<open>
  C6, as amended. After a recomputation the overview reports four counts, for Overdue,
  Due Soon, Due Today and Upcoming, and each is the number of records of the history
  with that status. It reports no count for Unknown: the four counts add up to the
  number of records less the records whose status is Unknown, and to the number of
  records only when there is none. As stated, with a count for each of five statuses
  adding up to the total, the claim fails: of the three records of the example one is
  Unknown, and the overview reports 1, 1, 0 and 0.
\<close>

theorem payment_status_overview_counts:
  assumes "well_formed df" and "recompute_statuses to_datetime today df = Inr df'"
  shows "payment_status_overview df' =
           Inr (records_with_status df' ''Overdue'', records_with_status df' ''Due Soon'',
                records_with_status df' ''Due Today'', records_with_status df' ''Upcoming'')
       \<and> records_with_status df' ''Overdue'' + records_with_status df' ''Due Soon''
         + records_with_status df' ''Due Today'' + records_with_status df' ''Upcoming''
         + records_with_status df' ''Unknown'' = nrows df'"
proof -
  from assms(2) obtain due where due: "map_of (cols df) ''Next Payment Due Date'' = Some due"
    and df': "df' = df\<lparr>cols := set_column (cols df) ''Payment Status''
                    (map (\<lambda>d. Text (get_payment_status to_datetime today d)) due)\<rparr>"
    by (rule recompute_statuses_Inr)
  let ?ps = "map (\<lambda>d. Text (get_payment_status to_datetime today d)) due"
  have ps: "map_of (cols df') ''Payment Status'' = Some ?ps"
    by (simp add: df' map_of_set_column_same)
  have len: "length ?ps = nrows df'"
    using well_formed_column [OF assms(1) due] by (simp add: df')
  have r: "records_with_status df' s = count_list ?ps (Text s)" for s
    using ps len by (rule records_with_status_column)
  have "payment_status_overview df' = Inr (overview_metrics (value_counts ?ps))"
    by (simp add: payment_status_overview_def status_counts_def get_column_def ps)
  then have "payment_status_overview df' =
           Inr (records_with_status df' ''Overdue'', records_with_status df' ''Due Soon'',
                records_with_status df' ''Due Today'', records_with_status df' ''Upcoming'')"
    by (simp add: overview_metrics_def counts_get_value_counts r)
  moreover have "records_with_status df' ''Overdue'' + records_with_status df' ''Due Soon''
         + records_with_status df' ''Due Today'' + records_with_status df' ''Upcoming''
         + records_with_status df' ''Unknown'' = nrows df'"
    using count_statuses [of to_datetime today due] len by (simp add: r)
  ultimately show ?thesis
    by simp
qed

theorem payment_status_overview_counts_witness:
  "well_formed example_df
   \<and> recompute_statuses iso_to_datetime 19884 example_df = Inr example_recomputed
   \<and> payment_status_overview example_recomputed =
       Inr (records_with_status example_recomputed ''Overdue'',
            records_with_status example_recomputed ''Due Soon'',
            records_with_status example_recomputed ''Due Today'',
            records_with_status example_recomputed ''Upcoming'')
   \<and> records_with_status example_recomputed ''Overdue''
     + records_with_status example_recomputed ''Due Soon''
     + records_with_status example_recomputed ''Due Today''
     + records_with_status example_recomputed ''Upcoming''
     + records_with_status example_recomputed ''Unknown'' = nrows example_recomputed"
  using payment_status_overview_counts [OF example_well_formed example_recompute]
    example_well_formed example_recompute
  by simp

theorem payment_status_overview_counterexample:
  "payment_status_overview example_recomputed = Inr (1, 1, 0, 0)
   \<and> records_with_status example_recomputed ''Unknown'' = 1
   \<and> nrows example_recomputed = 3"
  by code_simp

text \<open>
  The count of Unknown is in the status counts all the same, as the count of every
  status is; no metric reads it.
\<close>

lemma status_counts_reads:
  assumes "well_formed df" and "recompute_statuses to_datetime today df = Inr df'"
  shows "\<exists>sc. status_counts df' = Inr sc
           \<and> (\<forall>s. counts_get sc (Text s) = records_with_status df' s)"
proof -
  from assms(2) obtain due where due: "map_of (cols df) ''Next Payment Due Date'' = Some due"
    and df': "df' = df\<lparr>cols := set_column (cols df) ''Payment Status''
                    (map (\<lambda>d. Text (get_payment_status to_datetime today d)) due)\<rparr>"
    by (rule recompute_statuses_Inr)
  let ?ps = "map (\<lambda>d. Text (get_payment_status to_datetime today d)) due"
  have ps: "map_of (cols df') ''Payment Status'' = Some ?ps"
    by (simp add: df' map_of_set_column_same)
  have len: "length ?ps = nrows df'"
    using well_formed_column [OF assms(1) due] by (simp add: df')
  have "records_with_status df' s = count_list ?ps (Text s)" for s
    using ps len by (rule records_with_status_column)
  then show ?thesis
    by (simp add: status_counts_def get_column_def ps counts_get_value_counts)
qed

section \<open>Deleting a row\<close>

lemma nth_delete_below:
  "j < i \<Longrightarrow> i < length vs \<Longrightarrow> (take i vs @ drop (Suc i) vs) ! j = vs ! j"
  by (simp add: nth_append)

lemma nth_delete_above:
  "i \<le> j \<Longrightarrow> i < length vs \<Longrightarrow> (take i vs @ drop (Suc i) vs) ! j = vs ! Suc j"
  by (simp add: nth_append)

text \<open>
  C4. Deleting at a position \<open>i\<close> inside a history of \<open>n\<close> records succeeds and leaves
  \<open>n - 1\<close> records under the same columns: every record below \<open>i\<close> is where it was,
  unchanged, and every position from \<open>i\<close> on holds the record that was one position
  higher, so exactly the record at \<open>i\<close> is gone. The result is written to the file.
\<close>

theorem delete_row_in_range:
  assumes "well_formed (history_df st)" and "0 \<le> i" and "i < int (nrows (history_df st))"
  shows "fst (delete_row st i) = None
       \<and> Suc (nrows (history_df (snd (delete_row st i)))) = nrows (history_df st)
       \<and> columns (history_df (snd (delete_row st i))) = columns (history_df st)
       \<and> well_formed (history_df (snd (delete_row st i)))
       \<and> (\<forall>j. j < nat i \<longrightarrow> row (history_df (snd (delete_row st i))) j = row (history_df st) j)
       \<and> (\<forall>j. nat i \<le> j \<and> j < nrows (history_df (snd (delete_row st i))) \<longrightarrow>
               row (history_df (snd (delete_row st i))) j = row (history_df st) (Suc j))
       \<and> history_file (snd (delete_row st i)) = Some (history_df (snd (delete_row st i)))"
proof -
  let ?df = "history_df st"
  let ?n = "nat i"
  let ?df' = "\<lparr>nrows = nrows ?df - 1,
              cols = map (\<lambda>(c, vs). (c, take ?n vs @ drop (Suc ?n) vs)) (cols ?df)\<rparr>"
  have n: "?n < nrows ?df"
    using assms(2,3) by simp
  have len: "\<And>c vs. (c, vs) \<in> set (cols ?df) \<Longrightarrow> ?n < length vs"
    using assms(1) n by (auto simp: well_formed_def list_all_iff)
  have eq: "delete_row st i = (None, \<lparr>history_df = ?df', history_file = Some ?df'\<rparr>)"
    using assms(2,3) by (simp add: delete_row_def drop_row_def)
  have wf: "well_formed (history_df (snd (delete_row st i)))"
    using assms(1) n by (auto simp: eq well_formed_def list_all_iff)
  have below: "\<forall>j. j < ?n \<longrightarrow> row (history_df (snd (delete_row st i))) j = row ?df j"
    using len by (auto simp: eq row_def nth_delete_below)
  have above: "\<forall>j. ?n \<le> j \<and> j < nrows (history_df (snd (delete_row st i))) \<longrightarrow>
      row (history_df (snd (delete_row st i))) j = row ?df (Suc j)"
    using len by (auto simp: eq row_def nth_delete_above)
  show ?thesis
    using n wf below above by (simp add: eq columns_def comp_def case_prod_unfold)
qed

theorem delete_row_in_range_witness:
  "well_formed (history_df example_app) \<and> (0::int) \<le> 1
   \<and> 1 < int (nrows (history_df example_app))
   \<and> fst (delete_row example_app 1) = None
   \<and> nrows (history_df (snd (delete_row example_app 1))) = 2
   \<and> row (history_df (snd (delete_row example_app 1))) 0 = row (history_df example_app) 0
   \<and> row (history_df (snd (delete_row example_app 1))) 1 = row (history_df example_app) 2"
proof -
  have wf: "well_formed (history_df example_app)"
    by (simp add: example_app_def example_well_formed)
  have n: "nrows (history_df example_app) = 3"
    by (simp add: example_app_def example_df_def)
  have i: "1 < int (nrows (history_df example_app))"
    by (simp add: n)
  have r: "fst (delete_row example_app 1) = None
       \<and> Suc (nrows (history_df (snd (delete_row example_app 1)))) = nrows (history_df example_app)
       \<and> (\<forall>j. j < nat 1 \<longrightarrow>
            row (history_df (snd (delete_row example_app 1))) j = row (history_df example_app) j)
       \<and> (\<forall>j. nat 1 \<le> j \<and> j < nrows (history_df (snd (delete_row example_app 1))) \<longrightarrow>
            row (history_df (snd (delete_row example_app 1))) j
              = row (history_df example_app) (Suc j))"
    using delete_row_in_range [of example_app 1, OF wf _ i] by simp
  then have two: "nrows (history_df (snd (delete_row example_app 1))) = 2"
    using n by simp
  have "row (history_df (snd (delete_row example_app 1))) 0 = row (history_df example_app) 0"
    using r by simp
  moreover have "row (history_df (snd (delete_row example_app 1))) 1
      = row (history_df example_app) (Suc 1)"
    using r two by simp
  ultimately show ?thesis
    using wf i r two by (simp add: numeral_2_eq_2)
qed

text \<open>
  C5. Deleting at a negative position or at one not below the number of records fails:
  the error (the KeyError of \<^verbatim>\<open>drop\<close>) reaches the caller, and neither the history in
  memory nor the file has changed.
\<close>

theorem delete_row_out_of_range:
  assumes "i < 0 \<or> int (nrows (history_df st)) \<le> i"
  shows "delete_row st i = (Some KeyError, st)"
  using assms by (auto simp: delete_row_def drop_row_def)

theorem delete_row_out_of_range_witness:
  "int (nrows (history_df example_app)) \<le> 3
   \<and> delete_row example_app 3 = (Some KeyError, example_app)
   \<and> delete_row example_app (- 1) = (Some KeyError, example_app)"
proof -
  have n: "int (nrows (history_df example_app)) \<le> 3"
    by (simp add: example_app_def example_df_def)
  show ?thesis
    using delete_row_out_of_range [of 3 example_app] delete_row_out_of_range [of "- 1" example_app] n
    by simp
qed

end
